theory Spec2Isabelle
  imports Complex_Main "HOL-Library.Sublist" "HOL-Library.Char_ord" "HOL-Library.List_Lexorder"
begin

section \<open>Go strings\<close>

text \<open>
  A Go string is a sequence of bytes, here a \<^typ>\<open>string\<close>. The functions of package
  \<^verbatim>\<open>strings\<close> that the repository calls are written out below. Separators, cut sets and
  markers in the repository are all ASCII, where the library works byte by byte.
\<close>

text \<open>\<^verbatim>\<open>strings.Index(s, substr)\<close>: the first position of \<open>substr\<close> in \<open>s\<close>; \<open>None\<close> is -1.\<close>

fun Index :: "string \<Rightarrow> string \<Rightarrow> nat option" where
  "Index [] substr = (if substr = [] then Some 0 else None)"
| "Index (c # cs) substr =
     (if prefix substr (c # cs) then Some 0 else map_option Suc (Index cs substr))"

definition Contains :: "string \<Rightarrow> string \<Rightarrow> bool" where
  "Contains s substr = (Index s substr \<noteq> None)"

text \<open>\<^verbatim>\<open>strings.Split(s, sep)\<close> for a separator of one byte.\<close>

fun Split :: "string \<Rightarrow> char \<Rightarrow> string list" where
  "Split [] sep = [[]]"
| "Split (c # cs) sep =
     (if c = sep then [] # Split cs sep
      else (case Split cs sep of [] \<Rightarrow> [[c]] | x # xs \<Rightarrow> (c # x) # xs))"

fun Join :: "string list \<Rightarrow> string \<Rightarrow> string" where
  "Join [] sep = []"
| "Join [x] sep = x"
| "Join (x # y # ys) sep = x @ sep @ Join (y # ys) sep"

text \<open>
  \<^verbatim>\<open>unicode.IsSpace\<close> holds of the runes U+0009..U+000D, U+0020, U+0085, U+00A0, U+1680,
  U+2000..U+200A, U+2028, U+2029, U+202F, U+205F and U+3000. A string starts (ends) with
  such a rune exactly when it starts (ends) with the rune's UTF-8 encoding, one of the byte
  sequences below.
\<close>

definition spaceRunes :: "string list" where
  "spaceRunes =
    [[CHR 0x09], [CHR 0x0A], [CHR 0x0B], [CHR 0x0C], [CHR 0x0D], [CHR 0x20],
     [CHR 0xC2, CHR 0x85], [CHR 0xC2, CHR 0xA0], [CHR 0xE1, CHR 0x9A, CHR 0x80],
     [CHR 0xE2, CHR 0x80, CHR 0x80], [CHR 0xE2, CHR 0x80, CHR 0x81],
     [CHR 0xE2, CHR 0x80, CHR 0x82], [CHR 0xE2, CHR 0x80, CHR 0x83],
     [CHR 0xE2, CHR 0x80, CHR 0x84], [CHR 0xE2, CHR 0x80, CHR 0x85],
     [CHR 0xE2, CHR 0x80, CHR 0x86], [CHR 0xE2, CHR 0x80, CHR 0x87],
     [CHR 0xE2, CHR 0x80, CHR 0x88], [CHR 0xE2, CHR 0x80, CHR 0x89],
     [CHR 0xE2, CHR 0x80, CHR 0x8A], [CHR 0xE2, CHR 0x80, CHR 0xA8],
     [CHR 0xE2, CHR 0x80, CHR 0xA9], [CHR 0xE2, CHR 0x80, CHR 0xAF],
     [CHR 0xE2, CHR 0x81, CHR 0x9F], [CHR 0xE3, CHR 0x80, CHR 0x80]]"

text \<open>The length of the white-space rune that \<open>s\<close> starts with, 0 when there is none.\<close>

definition leadingSpace :: "string \<Rightarrow> nat" where
  "leadingSpace s = (case find (\<lambda>r. prefix r s) spaceRunes of None \<Rightarrow> 0 | Some r \<Rightarrow> length r)"

definition trailingSpace :: "string \<Rightarrow> nat" where
  "trailingSpace s = (case find (\<lambda>r. suffix r s) spaceRunes of None \<Rightarrow> 0 | Some r \<Rightarrow> length r)"

function TrimLeftSpace :: "string \<Rightarrow> string" where
  "TrimLeftSpace s =
     (if leadingSpace s = 0 then s else TrimLeftSpace (drop (leadingSpace s) s))"
  by pat_completeness auto
termination
proof (relation "measure length")
  show "wf (measure length)" by simp
next
  fix s :: string
  assume nz: "leadingSpace s \<noteq> 0"
  then obtain r where r: "find (\<lambda>r. prefix r s) spaceRunes = Some r"
    by (auto simp: leadingSpace_def split: option.splits)
  then have "prefix r s" and "r \<in> set spaceRunes"
    by (auto simp: find_Some_iff)
  then have "length r \<le> length s" and "0 < length r"
    by (auto simp: prefix_length_le spaceRunes_def)
  then have "length s - length r < length s" by arith
  with r show "(drop (leadingSpace s) s, s) \<in> measure length"
    by (simp add: leadingSpace_def)
qed

function TrimRightSpace :: "string \<Rightarrow> string" where
  "TrimRightSpace s =
     (if trailingSpace s = 0 then s
      else TrimRightSpace (take (length s - trailingSpace s) s))"
  by pat_completeness auto
termination
proof (relation "measure length")
  show "wf (measure length)" by simp
next
  fix s :: string
  assume "trailingSpace s \<noteq> 0"
  then obtain r where "find (\<lambda>r. suffix r s) spaceRunes = Some r"
    by (auto simp: trailingSpace_def split: option.splits)
  then have "suffix r s" and "r \<in> set spaceRunes"
    by (auto simp: find_Some_iff)
  then have "length r \<le> length s" and "0 < length r"
    by (auto simp: suffix_length_le spaceRunes_def)
  then have "length s - length r < length s" by arith
  with \<open>find (\<lambda>r. suffix r s) spaceRunes = Some r\<close>
  show "(take (length s - trailingSpace s) s, s) \<in> measure length"
    by (simp add: trailingSpace_def)
qed

declare TrimLeftSpace.simps [simp del] TrimRightSpace.simps [simp del]

text \<open>\<^verbatim>\<open>strings.TrimSpace(s)\<close>: all leading and trailing white space removed.\<close>

definition TrimSpace :: "string \<Rightarrow> string" where
  "TrimSpace s = TrimRightSpace (TrimLeftSpace s)"


text \<open>\<^verbatim>\<open>strconv.Itoa\<close> and the verb \<^verbatim>\<open>%d\<close>.\<close>

definition digit :: "nat \<Rightarrow> char" where
  "digit d = char_of (48 + d)"

function Itoa_nat :: "nat \<Rightarrow> string" where
  "Itoa_nat n = (if n < 10 then [digit n] else Itoa_nat (n div 10) @ [digit (n mod 10)])"
  by pat_completeness auto
termination
  by (relation "measure id") auto

declare Itoa_nat.simps [simp del]

definition Itoa :: "int \<Rightarrow> string" where
  "Itoa i = (if i < 0 then CHR ''-'' # Itoa_nat (nat (- i)) else Itoa_nat (nat i))"

section \<open>Decoded JSON\<close>

text \<open>
  What \<^verbatim>\<open>encoding/json\<close> decodes into \<^verbatim>\<open>interface{}\<close>: nil, bool, float64, string,
  a slice or a map with string keys, looked up with \<^const>\<open>map_of\<close>. \<open>Strings\<close> is a
  \<^verbatim>\<open>[]string\<close>, which the issue mapper stores for the labels. A number is only carried
  from the payload to the metadata.
\<close>

datatype "value" =
    Nil
  | Bool bool
  | Float64 real
  | String string
  | Slice "value list"
  | Object "(string \<times> value) list"
  | Strings "string list"

type_synonym object = "(string \<times> value) list"

record Document =
  PageContent :: string
  Metadata :: "string \<rightharpoonup> value"

section \<open>The issues loader\<close>

record GitHubIssuesLoader =
  Repo :: string
  AccessToken :: string
  GitHubAPIURL :: string
  IncludePRs :: bool
  Milestone :: "string option"
  State :: string
  Assignee :: string
  Creator :: string
  Mentioned :: string
  Labels :: "string list"
  Sort :: string
  Direction :: string
  Since :: string
  Page :: "int option"
  PerPage :: "int option"

subsection \<open>Helpers for parsing issue data\<close>

definition getString :: "object \<Rightarrow> string \<Rightarrow> string" where
  "getString data key = (case map_of data key of Some (String str) \<Rightarrow> str | _ \<Rightarrow> [])"

definition getNestedString :: "object \<Rightarrow> string \<Rightarrow> string \<Rightarrow> string" where
  "getNestedString data parentKey childKey =
     (case map_of data parentKey of Some (Object parent) \<Rightarrow> getString parent childKey | _ \<Rightarrow> [])"

definition getFloat64 :: "object \<Rightarrow> string \<Rightarrow> real" where
  "getFloat64 data key = (case map_of data key of Some (Float64 num) \<Rightarrow> num | _ \<Rightarrow> 0)"

definition getBool :: "object \<Rightarrow> string \<Rightarrow> bool" where
  "getBool data key = (case map_of data key of Some (Bool b) \<Rightarrow> b | _ \<Rightarrow> False)"

fun labelNames :: "value list \<Rightarrow> string list" where
  "labelNames [] = []"
| "labelNames (Object labelMap # labels) =
     (if getString labelMap ''name'' \<noteq> [] then getString labelMap ''name'' # labelNames labels
      else labelNames labels)"
| "labelNames (_ # labels) = labelNames labels"

definition extractLabels :: "object \<Rightarrow> string list" where
  "extractLabels issue =
     (case map_of issue ''labels'' of Some (Slice labels) \<Rightarrow> labelNames labels | _ \<Rightarrow> [])"

definition getAssignee :: "object \<Rightarrow> string" where
  "getAssignee issue =
     (case map_of issue ''assignee'' of Some (Object assignee) \<Rightarrow> getString assignee ''login''
      | _ \<Rightarrow> [])"

definition getMilestone :: "object \<Rightarrow> string" where
  "getMilestone issue =
     (case map_of issue ''milestone'' of Some (Object milestone) \<Rightarrow> getString milestone ''title''
      | _ \<Rightarrow> [])"

text \<open>\<^verbatim>\<open>issue["pull_request"] != nil\<close>: the key is there and its value is not null.\<close>

definition hasPullRequest :: "object \<Rightarrow> bool" where
  "hasPullRequest issue =
     (case map_of issue ''pull_request'' of None \<Rightarrow> False | Some Nil \<Rightarrow> False | Some _ \<Rightarrow> True)"

subsection \<open>The document mapper\<close>

definition parseIssue :: "GitHubIssuesLoader \<Rightarrow> object \<Rightarrow> Document" where
  "parseIssue l issue =
    (let metadata = map_of
       [(''url'', String (getString issue ''html_url'')),
        (''title'', String (getString issue ''title'')),
        (''creator'', String (getNestedString issue ''user'' ''login'')),
        (''created_at'', String (getString issue ''created_at'')),
        (''comments'', Float64 (getFloat64 issue ''comments'')),
        (''state'', String (getString issue ''state'')),
        (''labels'', Strings (extractLabels issue)),
        (''assignee'', String (getAssignee issue)),
        (''milestone'', String (getMilestone issue)),
        (''locked'', Bool (getBool issue ''locked'')),
        (''number'', Float64 (getFloat64 issue ''number'')),
        (''is_pull_request'', Bool (hasPullRequest issue))];
       content = getString issue ''body'';
       content = (if content = [] then getString issue ''title'' else content)
     in \<lparr>PageContent = content, Metadata = metadata\<rparr>)"

subsection \<open>The Link header\<close>






subsection \<open>The request URL\<close>









subsection \<open>Construction\<close>

text \<open>The process environment: \<^verbatim>\<open>os.Getenv\<close> gives the empty string for an unset variable.\<close>

type_synonym environ = "string \<Rightarrow> string"

type_synonym GitHubIssuesLoaderOption = "GitHubIssuesLoader \<Rightarrow> GitHubIssuesLoader"

definition WithAccessToken :: "string \<Rightarrow> GitHubIssuesLoaderOption" where
  "WithAccessToken token = (\<lambda>l. l\<lparr>AccessToken := token\<rparr>)"

definition WithIncludePRs :: "bool \<Rightarrow> GitHubIssuesLoaderOption" where
  "WithIncludePRs include = (\<lambda>l. l\<lparr>IncludePRs := include\<rparr>)"

definition WithState :: "string \<Rightarrow> GitHubIssuesLoaderOption" where
  "WithState state = (\<lambda>l. l\<lparr>State := state\<rparr>)"

definition WithLabels :: "string list \<Rightarrow> GitHubIssuesLoaderOption" where
  "WithLabels labels = (\<lambda>l. l\<lparr>Labels := labels\<rparr>)"

definition WithMilestone :: "string \<Rightarrow> GitHubIssuesLoaderOption" where
  "WithMilestone milestone = (\<lambda>l. l\<lparr>Milestone := Some milestone\<rparr>)"

definition WithAssignee :: "string \<Rightarrow> GitHubIssuesLoaderOption" where
  "WithAssignee assignee = (\<lambda>l. l\<lparr>Assignee := assignee\<rparr>)"

definition WithCreator :: "string \<Rightarrow> GitHubIssuesLoaderOption" where
  "WithCreator creator = (\<lambda>l. l\<lparr>Creator := creator\<rparr>)"

definition WithSort :: "string \<Rightarrow> string \<Rightarrow> GitHubIssuesLoaderOption" where
  "WithSort sort' direction = (\<lambda>l. l\<lparr>Sort := sort', Direction := direction\<rparr>)"

definition WithSince :: "string \<Rightarrow> GitHubIssuesLoaderOption" where
  "WithSince since = (\<lambda>l. l\<lparr>Since := since\<rparr>)"


definition NewGitHubIssuesLoader ::
  "environ \<Rightarrow> string \<Rightarrow> GitHubIssuesLoaderOption list \<Rightarrow> string + GitHubIssuesLoader" where
  "NewGitHubIssuesLoader env repo opts =
    (if repo = [] then Inl ''repository cannot be empty''
     else
       let loader = \<lparr>Repo = repo,
                     AccessToken = env ''GITHUB_PERSONAL_ACCESS_TOKEN'',
                     GitHubAPIURL = ''https://api.github.com'',
                     IncludePRs = True, Milestone = None, State = ''open'',
                     Assignee = [], Creator = [], Mentioned = [], Labels = [],
                     Sort = [], Direction = [], Since = [], Page = None, PerPage = None\<rparr>
       in if AccessToken loader = []
          then Inl ''GITHUB_PERSONAL_ACCESS_TOKEN environment variable is required''
          else Inr (foldl (\<lambda>loader opt. opt loader) loader opts))"

text \<open>The token that the options leave in the loader.\<close>

definition issuesLoaderToken :: "environ \<Rightarrow> string \<Rightarrow> GitHubIssuesLoaderOption list \<Rightarrow> string" where
  "issuesLoaderToken env repository opts =
     AccessToken (foldl (\<lambda>loader opt. opt loader)
       \<lparr>Repo = repository, AccessToken = env ''GITHUB_PERSONAL_ACCESS_TOKEN'',
        GitHubAPIURL = ''https://api.github.com'', IncludePRs = True, Milestone = None,
        State = ''open'', Assignee = [], Creator = [], Mentioned = [], Labels = [],
        Sort = [], Direction = [], Since = [], Page = None, PerPage = None\<rparr> opts)"

subsection \<open>Loading\<close>











subsection \<open>The file loader's constructor\<close>

record GitHubFileLoader =
  file_Repo :: string
  file_AccessToken :: string
  file_GitHubAPIURL :: string
  Branch :: string
  FileFilter :: "(string \<Rightarrow> bool) option"

type_synonym GitHubFileLoaderOption = "GitHubFileLoader \<Rightarrow> GitHubFileLoader"

definition WithFileAccessToken :: "string \<Rightarrow> GitHubFileLoaderOption" where
  "WithFileAccessToken token = (\<lambda>l. l\<lparr>file_AccessToken := token\<rparr>)"

definition WithBranch :: "string \<Rightarrow> GitHubFileLoaderOption" where
  "WithBranch branch = (\<lambda>l. l\<lparr>Branch := branch\<rparr>)"

definition WithFileFilter :: "(string \<Rightarrow> bool) \<Rightarrow> GitHubFileLoaderOption" where
  "WithFileFilter filter' = (\<lambda>l. l\<lparr>FileFilter := Some filter'\<rparr>)"

definition NewGitHubFileLoader ::
  "environ \<Rightarrow> string \<Rightarrow> GitHubFileLoaderOption list \<Rightarrow> string + GitHubFileLoader" where
  "NewGitHubFileLoader env repo opts =
    (if repo = [] then Inl ''repository cannot be empty''
     else
       let loader = \<lparr>file_Repo = repo,
                     file_AccessToken = env ''GITHUB_PERSONAL_ACCESS_TOKEN'',
                     file_GitHubAPIURL = ''https://api.github.com'',
                     Branch = ''main'', FileFilter = None\<rparr>
       in if file_AccessToken loader = []
          then Inl ''GITHUB_PERSONAL_ACCESS_TOKEN environment variable is required''
          else Inr (foldl (\<lambda>loader opt. opt loader) loader opts))"

text \<open>The token that the options leave in the file loader.\<close>

definition fileLoaderToken :: "environ \<Rightarrow> string \<Rightarrow> GitHubFileLoaderOption list \<Rightarrow> string" where
  "fileLoaderToken env repository opts =
     file_AccessToken (foldl (\<lambda>loader opt. opt loader)
       \<lparr>file_Repo = repository, file_AccessToken = env ''GITHUB_PERSONAL_ACCESS_TOKEN'',
        file_GitHubAPIURL = ''https://api.github.com'', Branch = ''main'',
        FileFilter = None\<rparr> opts)"

section \<open>The API wrapper\<close>

subsection \<open>Go strings, continued\<close>

text \<open>\<^verbatim>\<open>strings.SplitN(s, sep, n)\<close> for a separator of one byte and \<open>n \<ge> 0\<close>.\<close>

fun SplitN :: "string \<Rightarrow> char \<Rightarrow> nat \<Rightarrow> string list" where
  "SplitN s sep 0 = []"
| "SplitN s sep (Suc 0) = [s]"
| "SplitN [] sep (Suc (Suc n)) = [[]]"
| "SplitN (c # cs) sep (Suc (Suc n)) =
     (if c = sep then [] # SplitN cs sep (Suc n)
      else (case SplitN cs sep (Suc (Suc n)) of [] \<Rightarrow> [[c]] | x # xs \<Rightarrow> (c # x) # xs))"

text \<open>The slice expression \<^verbatim>\<open>s[lo:hi]\<close>; \<open>None\<close> is the run-time panic for bounds out of range.\<close>

definition slice :: "string \<Rightarrow> nat \<Rightarrow> nat \<Rightarrow> string option" where
  "slice s lo hi = (if lo \<le> hi \<and> hi \<le> length s then Some (take (hi - lo) (drop lo s)) else None)"

text \<open>
  The width of the first rune of a non-empty string, as \<^verbatim>\<open>utf8.DecodeRuneInString\<close>
  finds it: 1 for an ASCII byte and for a byte that starts no valid encoding.
\<close>

definition runeWidth :: "string \<Rightarrow> nat" where
  "runeWidth s =
    (let b = (\<lambda>i. (of_char (s ! i) :: nat)); s0 = b 0
     in if s0 < 0xC2 \<or> 0xF4 < s0 then 1
        else
          let sz = (if s0 < 0xE0 then 2 else if s0 < 0xF0 then 3 else 4) :: nat;
              lo = (if s0 = 0xE0 then 0xA0 else if s0 = 0xF0 then 0x90 else 0x80) :: nat;
              hi = (if s0 = 0xED then 0x9F else if s0 = 0xF4 then 0x8F else 0xBF) :: nat
          in if length s < sz then 1
             else if b 1 < lo \<or> hi < b 1 then 1
             else if sz \<le> 2 then 2
             else if b 2 < 0x80 \<or> 0xBF < b 2 then 1
             else if sz \<le> 3 then 3
             else if b 3 < 0x80 \<or> 0xBF < b 3 then 1
             else 4)"

text \<open>\<^verbatim>\<open>strings.ReplaceAll(s, old, new)\<close> for a non-empty \<open>old\<close>, left to right.\<close>

function replaceEach :: "string \<Rightarrow> string \<Rightarrow> string \<Rightarrow> string" where
  "replaceEach [] old new = []"
| "replaceEach (c # cs) old new =
     (if old \<noteq> [] \<and> prefix old (c # cs)
      then new @ replaceEach (drop (length old) (c # cs)) old new
      else c # replaceEach cs old new)"
  by pat_completeness auto
termination
  by (relation "measure (\<lambda>(s, old, new). length s)") auto

text \<open>For an empty \<open>old\<close>, \<open>new\<close> goes in front of every rune and after the last one.\<close>

function afterEachRune :: "string \<Rightarrow> string \<Rightarrow> string" where
  "afterEachRune s new =
     (if s = [] then []
      else take (max 1 (runeWidth s)) s @ new @ afterEachRune (drop (max 1 (runeWidth s)) s) new)"
  by pat_completeness auto
termination
  by (relation "measure (\<lambda>(s, new). length s)") auto

declare replaceEach.simps [simp del] afterEachRune.simps [simp del]

definition ReplaceAll :: "string \<Rightarrow> string \<Rightarrow> string \<Rightarrow> string" where
  "ReplaceAll s old new =
     (if old = new then s
      else if old = [] then new @ afterEachRune s new
      else replaceEach s old new)"

text \<open>The verb \<^verbatim>\<open>%v\<close> on a slice of strings.\<close>

definition showStrings :: "string list \<Rightarrow> string" where
  "showStrings xs = ''['' @ Join xs '' '' @ '']''"

subsection \<open>The GitHub client\<close>

text \<open>
  A Go method returns \<^verbatim>\<open>(string, error)\<close>: \<open>Ok s\<close> is \<^verbatim>\<open>(s, nil)\<close>, \<open>Err e\<close> is a non-nil
  error with the text \<open>e\<close>, \<open>Panic\<close> is a run-time panic.
\<close>

datatype result = Ok string | Err string | Panic

text \<open>
  Of the library's \<^verbatim>\<open>RepositoryContent\<close> the wrapper reads the field \<^verbatim>\<open>SHA\<close> and calls
  \<^verbatim>\<open>GetContent()\<close>, which gives the decoded text or a decoding error.
\<close>

record RepositoryContent =
  SHA :: "string option"
  GetContent :: "string + string"

record RepositoryContentFileOptions =
  opts_Message :: string
  opts_Content :: string
  opts_Branch :: string
  opts_SHA :: "string option"

record Repository =
  DefaultBranch :: string

datatype request =
    Get string string
  | GetRef string
  | CreateRef string string
  | ListBranches
  | GetContents string string
  | CreateFileRequest string RepositoryContentFileOptions
  | UpdateFileRequest string RepositoryContentFileOptions
  | DeleteFileRequest string RepositoryContentFileOptions

text \<open>The requests that change the repository.\<close>

fun isWrite :: "request \<Rightarrow> bool" where
  "isWrite (CreateRef _ _) = True"
| "isWrite (CreateFileRequest _ _) = True"
| "isWrite (UpdateFileRequest _ _) = True"
| "isWrite (DeleteFileRequest _ _) = True"
| "isWrite _ = False"

text \<open>
  The client is the remote side: every service method answers as a function of the requests
  sent so far and of its arguments, with the error's text (\<open>Inl\<close>, or \<open>Some\<close> where nothing
  else is returned) or its value. \<^verbatim>\<open>GetContents\<close> returns a nil file with a nil error for a
  path that is a directory, which is how \<^verbatim>\<open>listFiles\<close> reads directories. The owner and the
  repository name, fixed at construction, are left out of the requests.
\<close>

record Client =
  Repositories_Get :: "request list \<Rightarrow> string \<Rightarrow> string \<Rightarrow> string + Repository"
  Git_GetRef :: "request list \<Rightarrow> string \<Rightarrow> string + string"
  Git_CreateRef :: "request list \<Rightarrow> string \<Rightarrow> string \<Rightarrow> string option"
  Repositories_ListBranches :: "request list \<Rightarrow> string + string list"
  Repositories_GetContents ::
    "request list \<Rightarrow> string \<Rightarrow> string \<Rightarrow> string + RepositoryContent option"
  Repositories_CreateFile ::
    "request list \<Rightarrow> string \<Rightarrow> RepositoryContentFileOptions \<Rightarrow> string option"
  Repositories_UpdateFile ::
    "request list \<Rightarrow> string \<Rightarrow> RepositoryContentFileOptions \<Rightarrow> string option"
  Repositories_DeleteFile ::
    "request list \<Rightarrow> string \<Rightarrow> RepositoryContentFileOptions \<Rightarrow> string option"

record GitHubAPIWrapper =
  client :: Client
  repo :: Repository
  owner :: string
  repoName :: string
  activeBranch :: string
  githubBaseBranch :: string
  appID :: string
  privateKey :: string

record Config =
  Repository :: string
  AppID :: string
  PrivateKey :: string
  ActiveBranch :: string
  GitHubBaseBranch :: string

subsection \<open>Construction\<close>

text \<open>
  \<open>c\<close> is the client that \<^verbatim>\<open>githubapi.NewClient\<close> returns for the private key used as a
  token. The result carries the requests sent.
\<close>

definition NewGitHubAPIWrapper ::
  "environ \<Rightarrow> Client \<Rightarrow> request list \<Rightarrow> Config option
     \<Rightarrow> (string + GitHubAPIWrapper) \<times> request list" where
  "NewGitHubAPIWrapper env c h config =
    (let config = (case config of
                     None \<Rightarrow> \<lparr>Repository = [], AppID = [], PrivateKey = [],
                              ActiveBranch = [], GitHubBaseBranch = []\<rparr>
                   | Some config \<Rightarrow> config);
         config = (if Repository config = []
                   then config\<lparr>Repository := env ''GITHUB_REPOSITORY''\<rparr> else config);
         config = (if AppID config = []
                   then config\<lparr>AppID := env ''GITHUB_APP_ID''\<rparr> else config);
         config = (if PrivateKey config = []
                   then config\<lparr>PrivateKey := env ''GITHUB_APP_PRIVATE_KEY''\<rparr> else config)
     in if Repository config = [] then (Inl ''GITHUB_REPOSITORY is required'', h)
        else if AppID config = [] then (Inl ''GITHUB_APP_ID is required'', h)
        else if PrivateKey config = [] then (Inl ''GITHUB_APP_PRIVATE_KEY is required'', h)
        else
          let parts = Split (Repository config) CHR ''/''
          in if length parts \<noteq> 2
             then (Inl (''invalid repository format: '' @ Repository config
                          @ '' (expected owner/repo)''), h)
             else
               let owner' = parts ! 0; repoName' = parts ! 1
               in (case Repositories_Get c h owner' repoName' of
                     Inl err \<Rightarrow>
                       (Inl (''failed to get repository: '' @ err), h @ [Get owner' repoName'])
                   | Inr repo' \<Rightarrow>
                       let config = (if GitHubBaseBranch config = []
                                     then config\<lparr>GitHubBaseBranch := DefaultBranch repo'\<rparr>
                                     else config);
                           config = (if ActiveBranch config = []
                                     then config\<lparr>ActiveBranch := DefaultBranch repo'\<rparr>
                                     else config)
                       in (Inr \<lparr>client = c, repo = repo', owner = owner', repoName = repoName',
                                 activeBranch = ActiveBranch config,
                                 githubBaseBranch = GitHubBaseBranch config,
                                 appID = AppID config, privateKey = PrivateKey config\<rparr>,
                           h @ [Get owner' repoName'])))"


text \<open>
  What the constructor reads for a field of the configuration: the value given, or else the
  environment variable.
\<close>

definition configured :: "environ \<Rightarrow> Config option \<Rightarrow> (Config \<Rightarrow> string) \<Rightarrow> string \<Rightarrow> string" where
  "configured env config field var =
     (case config of None \<Rightarrow> env var
      | Some c \<Rightarrow> if field c = [] then env var else field c)"

subsection \<open>Methods\<close>

text \<open>
  A method takes the wrapper, the requests sent so far and its argument, and returns the
  result, the wrapper as the call leaves it and the requests sent by then.
\<close>

type_synonym outcome = "result \<times> GitHubAPIWrapper \<times> request list"

definition SetActiveBranch :: "GitHubAPIWrapper \<Rightarrow> request list \<Rightarrow> string \<Rightarrow> outcome" where
  "SetActiveBranch w h branchName =
    (case Repositories_ListBranches (client w) h of
       Inl err \<Rightarrow> (Err (''failed to list branches: '' @ err), w, h @ [ListBranches])
     | Inr branchNames \<Rightarrow>
         if branchName \<notin> set branchNames
         then (Ok (''Error '' @ branchName
                     @ '' does not exist, in repo with current branches: ''
                     @ showStrings branchNames), w, h @ [ListBranches])
         else (Ok (''Switched to branch `'' @ branchName @ ''`''),
               w\<lparr>activeBranch := branchName\<rparr>, h @ [ListBranches]))"

text \<open>The loop of \<^verbatim>\<open>CreateBranch\<close>, from the iteration \<open>i\<close> on.\<close>

function CreateBranch_loop ::
  "GitHubAPIWrapper \<Rightarrow> request list \<Rightarrow> string \<Rightarrow> string \<Rightarrow> string \<Rightarrow> nat \<Rightarrow> outcome" where
  "CreateBranch_loop w h proposedBranchName sha newBranchName i =
    (if i < 1000 then
       (case Git_CreateRef (client w) h (''refs/heads/'' @ newBranchName) sha of
          None \<Rightarrow>
            (Ok (''Branch '' @ [CHR 0x27] @ newBranchName @ [CHR 0x27]
                   @ '' created successfully, and set as current active branch.''),
             w\<lparr>activeBranch := newBranchName\<rparr>,
             h @ [CreateRef (''refs/heads/'' @ newBranchName) sha])
        | Some err \<Rightarrow>
            if Contains err ''Reference already exists''
            then CreateBranch_loop w (h @ [CreateRef (''refs/heads/'' @ newBranchName) sha])
                   proposedBranchName sha
                   (proposedBranchName @ ''_v'' @ Itoa (int i + 1)) (i + 1)
            else (Err (''failed to create branch: '' @ err), w,
                  h @ [CreateRef (''refs/heads/'' @ newBranchName) sha]))
     else
       (Ok (''Unable to create branch. At least 1000 branches exist with named derived from proposed_branch_name: `''
              @ proposedBranchName @ ''`''), w, h))"
  by pat_completeness auto
termination
  by (relation "measure (\<lambda>(w, h, p, sha, n, i). 1000 - i)") auto

declare CreateBranch_loop.simps [simp del]

definition CreateBranch :: "GitHubAPIWrapper \<Rightarrow> request list \<Rightarrow> string \<Rightarrow> outcome" where
  "CreateBranch w h proposedBranchName =
    (case Git_GetRef (client w) h (''refs/heads/'' @ githubBaseBranch w) of
       Inl err \<Rightarrow>
         (Err (''failed to get base branch: '' @ err), w,
          h @ [GetRef (''refs/heads/'' @ githubBaseBranch w)])
     | Inr sha \<Rightarrow>
         CreateBranch_loop w (h @ [GetRef (''refs/heads/'' @ githubBaseBranch w)])
           proposedBranchName sha proposedBranchName 0)"

definition ReadFile :: "GitHubAPIWrapper \<Rightarrow> request list \<Rightarrow> string \<Rightarrow> outcome" where
  "ReadFile w h filePath =
    (case Repositories_GetContents (client w) h filePath (activeBranch w) of
       Inl err \<Rightarrow>
         (Ok (''File not found `'' @ filePath @ ''` on branch `'' @ activeBranch w
                @ ''`. Error: '' @ err), w, h @ [GetContents filePath (activeBranch w)])
     | Inr None \<Rightarrow> (Panic, w, h @ [GetContents filePath (activeBranch w)])
     | Inr (Some fileContent) \<Rightarrow>
         (case GetContent fileContent of
            Inl err \<Rightarrow>
              (Ok (''Failed to decode file content: '' @ err), w,
               h @ [GetContents filePath (activeBranch w)])
          | Inr content \<Rightarrow> (Ok content, w, h @ [GetContents filePath (activeBranch w)])))"

definition protectedBranch :: "string \<Rightarrow> string" where
  "protectedBranch base =
     ''You'' @ [CHR 0x27] @ ''re attempting to commit to the directly to the '' @ base
       @ '' branch, which is protected. Please create a new branch and try again.''"

definition CreateFile :: "GitHubAPIWrapper \<Rightarrow> request list \<Rightarrow> string \<Rightarrow> outcome" where
  "CreateFile w h fileQuery =
    (if activeBranch w = githubBaseBranch w
     then (Ok (protectedBranch (githubBaseBranch w)), w, h)
     else
       let lines = SplitN fileQuery CHR 0x0A 2
       in if length lines < 2 then (Ok ''Invalid file format'', w, h)
          else
            let filePath = lines ! 0;
                fileContents = lines ! 1;
                h1 = h @ [GetContents filePath (activeBranch w)]
            in (case Repositories_GetContents (client w) h filePath (activeBranch w) of
                  Inr _ \<Rightarrow>
                    (Ok (''File already exists at `'' @ filePath @ ''` on branch `''
                           @ activeBranch w @ ''`. You must use `update_file` to modify it.''),
                     w, h1)
                | Inl _ \<Rightarrow>
                    let opts = \<lparr>opts_Message = ''Create '' @ filePath,
                                 opts_Content = fileContents,
                                 opts_Branch = activeBranch w, opts_SHA = None\<rparr>
                    in (case Repositories_CreateFile (client w) h1 filePath opts of
                          Some err \<Rightarrow>
                            (Ok (''Unable to make file due to error:'' @ [CHR 0x0A] @ err), w,
                             h1 @ [CreateFileRequest filePath opts])
                        | None \<Rightarrow>
                            (Ok (''Created file '' @ filePath), w,
                             h1 @ [CreateFileRequest filePath opts]))))"

definition notUpdated :: string where
  "notUpdated = ''File content was not updated because old content was not found. It may be helpful to use the read_file action to get the current file contents.''"

text \<open>
  The second half of \<^verbatim>\<open>UpdateFile\<close>, from the read of the current content on, with the
  old and the new block already cut out of the payload.
\<close>

definition replaceInFile ::
  "GitHubAPIWrapper \<Rightarrow> request list \<Rightarrow> string \<Rightarrow> string \<Rightarrow> string \<Rightarrow> outcome" where
  "replaceInFile w h filePath oldContent newContent =
    (case ReadFile w h filePath of
       (Panic, w1, h1) \<Rightarrow> (Panic, w1, h1)
     | (Err err, w1, h1) \<Rightarrow> (Ok (''Failed to read current file: '' @ err), w1, h1)
     | (Ok currentContent, w1, h1) \<Rightarrow>
         let updatedContent = ReplaceAll currentContent oldContent newContent
         in if currentContent = updatedContent then (Ok notUpdated, w1, h1)
            else
              let h2 = h1 @ [GetContents filePath (activeBranch w1)]
              in (case Repositories_GetContents (client w1) h1 filePath (activeBranch w1) of
                    Inl err \<Rightarrow> (Ok (''Failed to get file SHA: '' @ err), w1, h2)
                  | Inr None \<Rightarrow> (Panic, w1, h2)
                  | Inr (Some fileContent) \<Rightarrow>
                      let opts = \<lparr>opts_Message = ''Update '' @ filePath,
                                   opts_Content = updatedContent,
                                   opts_Branch = activeBranch w1,
                                   opts_SHA = SHA fileContent\<rparr>
                      in (case Repositories_UpdateFile (client w1) h2 filePath opts of
                            Some err \<Rightarrow>
                              (Ok (''Unable to update file due to error:'' @ [CHR 0x0A] @ err),
                               w1, h2 @ [UpdateFileRequest filePath opts])
                          | None \<Rightarrow>
                              (Ok (''Updated file '' @ filePath), w1,
                               h2 @ [UpdateFileRequest filePath opts]))))"

definition UpdateFile :: "GitHubAPIWrapper \<Rightarrow> request list \<Rightarrow> string \<Rightarrow> outcome" where
  "UpdateFile w h fileQuery =
    (if activeBranch w = githubBaseBranch w
     then (Ok (protectedBranch (githubBaseBranch w)), w, h)
     else
       let lines = Split fileQuery CHR 0x0A
       in if length lines < 1 then (Ok ''Invalid file format'', w, h)
          else
            let filePath = lines ! 0;
                content = Join (drop 1 lines) [CHR 0x0A]
            in (case (Index content ''OLD <<<<'', Index content ''>>>> OLD'',
                      Index content ''NEW <<<<'', Index content ''>>>> NEW'') of
                  (Some oldStartIdx, Some oldEndIdx, Some newStartIdx, Some newEndIdx) \<Rightarrow>
                    (case slice content (oldStartIdx + 8) oldEndIdx of
                       None \<Rightarrow> (Panic, w, h)
                     | Some oldBlock \<Rightarrow>
                         (case slice content (newStartIdx + 8) newEndIdx of
                            None \<Rightarrow> (Panic, w, h)
                          | Some newBlock \<Rightarrow>
                              replaceInFile w h filePath (TrimSpace oldBlock)
                                (TrimSpace newBlock)))
                | _ \<Rightarrow>
                    (Ok ''Invalid update format: missing OLD <<<< ... >>>> OLD or NEW <<<< ... >>>> NEW markers'',
                     w, h)))"

definition DeleteFile :: "GitHubAPIWrapper \<Rightarrow> request list \<Rightarrow> string \<Rightarrow> outcome" where
  "DeleteFile w h filePath =
    (if activeBranch w = githubBaseBranch w
     then (Ok (protectedBranch (githubBaseBranch w)), w, h)
     else
       let h1 = h @ [GetContents filePath (activeBranch w)]
       in (case Repositories_GetContents (client w) h filePath (activeBranch w) of
             Inl err \<Rightarrow> (Ok (''Unable to delete file due to error:'' @ [CHR 0x0A] @ err), w, h1)
           | Inr None \<Rightarrow> (Panic, w, h1)
           | Inr (Some fileContent) \<Rightarrow>
               let opts = \<lparr>opts_Message = ''Delete '' @ filePath, opts_Content = [],
                            opts_Branch = activeBranch w, opts_SHA = SHA fileContent\<rparr>
               in (case Repositories_DeleteFile (client w) h1 filePath opts of
                     Some err \<Rightarrow>
                       (Ok (''Unable to delete file due to error:'' @ [CHR 0x0A] @ err), w,
                        h1 @ [DeleteFileRequest filePath opts])
                   | None \<Rightarrow>
                       (Ok (''Deleted file '' @ filePath), w,
                        h1 @ [DeleteFileRequest filePath opts]))))"


subsection \<open>The attempts of \<^verbatim>\<open>CreateBranch\<close>\<close>

text \<open>
  The name tried in iteration \<open>k\<close> of the loop, the creation requests of the first \<open>k\<close>
  iterations, the client's answer to the request of iteration \<open>j\<close> when the \<open>j\<close> requests
  before it have been sent after \<open>h\<close>, and whether that answer is the conflict that the loop
  retries on. \<open>created\<close> and \<open>unable\<close> are the two messages of the method.
\<close>

definition attemptName :: "string \<Rightarrow> nat \<Rightarrow> string" where
  "attemptName proposedBranchName k =
     (if k = 0 then proposedBranchName else proposedBranchName @ ''_v'' @ Itoa (int k))"

definition attempts :: "string \<Rightarrow> string \<Rightarrow> nat \<Rightarrow> request list" where
  "attempts proposedBranchName sha k =
     map (\<lambda>j. CreateRef (''refs/heads/'' @ attemptName proposedBranchName j) sha) [0..<k]"

definition answer :: "GitHubAPIWrapper \<Rightarrow> request list \<Rightarrow> string \<Rightarrow> string \<Rightarrow> nat \<Rightarrow> string option" where
  "answer w h proposedBranchName sha j =
     Git_CreateRef (client w) (h @ attempts proposedBranchName sha j)
       (''refs/heads/'' @ attemptName proposedBranchName j) sha"

definition conflict :: "GitHubAPIWrapper \<Rightarrow> request list \<Rightarrow> string \<Rightarrow> string \<Rightarrow> nat \<Rightarrow> bool" where
  "conflict w h proposedBranchName sha j =
     (case answer w h proposedBranchName sha j of
        None \<Rightarrow> False
      | Some err \<Rightarrow> Contains err ''Reference already exists'')"

definition created :: "string \<Rightarrow> string" where
  "created newBranchName =
     ''Branch '' @ [CHR 0x27] @ newBranchName @ [CHR 0x27]
       @ '' created successfully, and set as current active branch.''"

definition unable :: "string \<Rightarrow> string" where
  "unable proposedBranchName =
     ''Unable to create branch. At least 1000 branches exist with named derived from proposed_branch_name: `''
       @ proposedBranchName @ ''`''"

section \<open>Example inputs\<close>

text \<open>
  A repository with the branches \<open>main\<close> and \<open>dev\<close>, one file \<open>README.md\<close> and a branch
  \<open>feature\<close> that exists already, behind a client that otherwise accepts every write.
\<close>

definition demoClient :: Client where
  "demoClient =
    \<lparr>Repositories_Get = (\<lambda>h owner' repoName'. Inr \<lparr>DefaultBranch = ''main''\<rparr>),
     Git_GetRef = (\<lambda>h ref. Inr ''0a1b2c''),
     Git_CreateRef = (\<lambda>h ref sha.
        if ref = ''refs/heads/feature'' then Some ''422 Reference already exists'' else None),
     Repositories_ListBranches = (\<lambda>h. Inr [''main'', ''dev'']),
     Repositories_GetContents = (\<lambda>h path ref.
        if path = ''README.md''
        then Inr (Some \<lparr>SHA = Some ''3f4e'', GetContent = Inr ''hello world''\<rparr>)
        else Inl ''404 Not Found''),
     Repositories_CreateFile = (\<lambda>h path opts. None),
     Repositories_UpdateFile = (\<lambda>h path opts. None),
     Repositories_DeleteFile = (\<lambda>h path opts. None)\<rparr>"

definition demoWrapper :: "string \<Rightarrow> GitHubAPIWrapper" where
  "demoWrapper active =
    \<lparr>client = demoClient, repo = \<lparr>DefaultBranch = ''main''\<rparr>, owner = ''owner'',
     repoName = ''repo'', activeBranch = active, githubBaseBranch = ''main'',
     appID = ''12345'', privateKey = ''key''\<rparr>"

text \<open>Two environments, and a configuration that names only the repository.\<close>

definition tokenOnly :: environ where
  "tokenOnly var = (if var = ''GITHUB_PERSONAL_ACCESS_TOKEN'' then ''token'' else [])"

definition appOnly :: environ where
  "appOnly var =
     (if var = ''GITHUB_APP_ID'' then ''12345''
      else if var = ''GITHUB_APP_PRIVATE_KEY'' then ''key'' else [])"

definition demoConfig :: Config where
  "demoConfig = \<lparr>Repository = ''owner/repo'', AppID = [], PrivateKey = [],
                  ActiveBranch = [], GitHubBaseBranch = []\<rparr>"

text \<open>The payload of \<^verbatim>\<open>UpdateFile\<close> in the documented layout.\<close>

definition updateQuery :: "string \<Rightarrow> string \<Rightarrow> string \<Rightarrow> string" where
  "updateQuery filePath old new =
     filePath @ [CHR 0x0A] @ ''OLD <<<<'' @ [CHR 0x0A] @ old @ [CHR 0x0A] @ ''>>>> OLD''
       @ [CHR 0x0A] @ ''NEW <<<<'' @ [CHR 0x0A] @ new @ [CHR 0x0A] @ ''>>>> NEW''"

definition demoLoader :: GitHubIssuesLoader where
  "demoLoader =
    \<lparr>Repo = ''owner/repo'', AccessToken = ''token'',
     GitHubAPIURL = ''https://api.github.com'', IncludePRs = True, Milestone = None,
     State = ''open'', Assignee = [], Creator = [], Mentioned = [], Labels = [],
     Sort = [], Direction = [], Since = [], Page = None, PerPage = None\<rparr>"








section \<open>The protected branch\<close>

text \<open>
  C3. When the active branch is the base branch, \<^verbatim>\<open>CreateFile\<close>, \<^verbatim>\<open>UpdateFile\<close> and
  \<^verbatim>\<open>DeleteFile\<close> each return the refusal message with a nil error, send no request at all
  (so no write), and leave the wrapper as it was.
\<close>

theorem protected_branch_refusal:
  assumes "activeBranch w = githubBaseBranch w"
  shows "CreateFile w h fileQuery = (Ok (protectedBranch (githubBaseBranch w)), w, h)
       \<and> UpdateFile w h fileQuery = (Ok (protectedBranch (githubBaseBranch w)), w, h)
       \<and> DeleteFile w h filePath = (Ok (protectedBranch (githubBaseBranch w)), w, h)"
  using assms by (simp add: CreateFile_def UpdateFile_def DeleteFile_def)

theorem protected_branch_refusal_witness:
  "CreateFile (demoWrapper ''main'') [] ''notes.txt''
     = (Ok (protectedBranch ''main''), demoWrapper ''main'', [])
   \<and> UpdateFile (demoWrapper ''main'') [] ''notes.txt''
     = (Ok (protectedBranch ''main''), demoWrapper ''main'', [])
   \<and> DeleteFile (demoWrapper ''main'') [] ''README.md''
     = (Ok (protectedBranch ''main''), demoWrapper ''main'', [])"
  using protected_branch_refusal
    [of "demoWrapper ''main''" "[]" "''notes.txt''" "''README.md''"]
  by (simp add: demoWrapper_def)

section \<open>The document mapper\<close>

text \<open>
  C7. When the payload holds a non-empty string under \<open>body\<close>, the content of the document
  that \<^verbatim>\<open>parseIssue\<close> returns is that string. When it holds none (the key is absent, or its
  value is null, not a string, or the empty string), the content is the string under
  \<open>title\<close>, and empty when there is no such string. So the content is non-empty whenever
  the payload has a non-empty title.
\<close>

theorem parseIssue_content:
  "(\<forall>body. map_of issue ''body'' = Some (String body) \<and> body \<noteq> [] \<longrightarrow>
       PageContent (parseIssue l issue) = body)
   \<and> ((\<forall>body. map_of issue ''body'' = Some (String body) \<longrightarrow> body = []) \<longrightarrow>
       (\<forall>title. map_of issue ''title'' = Some (String title) \<longrightarrow>
          PageContent (parseIssue l issue) = title)
       \<and> ((\<forall>title. map_of issue ''title'' \<noteq> Some (String title)) \<longrightarrow>
          PageContent (parseIssue l issue) = []))
   \<and> (\<forall>title. map_of issue ''title'' = Some (String title) \<and> title \<noteq> [] \<longrightarrow>
       PageContent (parseIssue l issue) \<noteq> [])"
proof -
  have body: "getString issue ''body'' = body"
    if "map_of issue ''body'' = Some (String body)" for body
    using that by (simp add: getString_def)
  have nobody: "getString issue ''body'' = []"
    if "\<forall>body. map_of issue ''body'' = Some (String body) \<longrightarrow> body = []"
  proof (cases "map_of issue ''body''")
    case None
    then show ?thesis by (simp add: getString_def)
  next
    case (Some v)
    with that show ?thesis by (cases v) (simp_all add: getString_def)
  qed
  have title: "getString issue ''title'' = title"
    if "map_of issue ''title'' = Some (String title)" for title
    using that by (simp add: getString_def)
  have notitle: "getString issue ''title'' = []"
    if "\<forall>title. map_of issue ''title'' \<noteq> Some (String title)"
  proof (cases "map_of issue ''title''")
    case None
    then show ?thesis by (simp add: getString_def)
  next
    case (Some v)
    with that show ?thesis by (cases v) (simp_all add: getString_def)
  qed
  have content: "PageContent (parseIssue l issue) =
     (if getString issue ''body'' = [] then getString issue ''title''
      else getString issue ''body'')"
    by (simp add: parseIssue_def Let_def)
  show ?thesis
    using body nobody title notitle by (auto simp: content)
qed

theorem parseIssue_content_witness:
  "PageContent (parseIssue demoLoader [(''title'', String ''Crash on start''), (''body'', Nil)])
     = ''Crash on start''
   \<and> PageContent (parseIssue demoLoader
         [(''title'', String ''Crash on start''), (''body'', String ''It crashes.'')])
     = ''It crashes.''"
  using parseIssue_content
    [of "[(''title'', String ''Crash on start''), (''body'', Nil)]" demoLoader]
    parseIssue_content
    [of "[(''title'', String ''Crash on start''), (''body'', String ''It crashes.'')]" demoLoader]
  by simp

section \<open>Switching the active branch\<close>

text \<open>
  C8. When the branch listing does not name the requested branch, \<^verbatim>\<open>SetActiveBranch\<close>
  returns the "does not exist" message with a nil error and leaves the wrapper unchanged.
  The wrapper changes only when the listing names the branch, and then only in its active
  branch.
\<close>

theorem SetActiveBranch_missing:
  "(Repositories_ListBranches (client w) h = Inr branchNames \<and> branchName \<notin> set branchNames
      \<longrightarrow> SetActiveBranch w h branchName =
        (Ok (''Error '' @ branchName @ '' does not exist, in repo with current branches: ''
               @ showStrings branchNames), w, h @ [ListBranches]))
   \<and> (fst (snd (SetActiveBranch w h branchName)) \<noteq> w \<longrightarrow>
        (\<exists>branchNames. Repositories_ListBranches (client w) h = Inr branchNames
           \<and> branchName \<in> set branchNames
           \<and> fst (snd (SetActiveBranch w h branchName)) = w\<lparr>activeBranch := branchName\<rparr>))"
  by (auto simp: SetActiveBranch_def split: sum.splits)

theorem SetActiveBranch_missing_witness:
  "SetActiveBranch (demoWrapper ''dev'') [] ''release'' =
     (Ok ''Error release does not exist, in repo with current branches: [main dev]'',
      demoWrapper ''dev'', [ListBranches])"
  using SetActiveBranch_missing
    [of "demoWrapper ''dev''" "[]" "[''main'', ''dev'']" "''release''"]
  by (simp add: demoWrapper_def demoClient_def showStrings_def)

section \<open>Reading a file\<close>

text \<open>
  C9. \<^verbatim>\<open>ReadFile\<close> never returns a non-nil error. A failed lookup and a failed decoding
  both come back as a message in the result string with a nil error, as a successful read
  does with the content.
\<close>

theorem ReadFile_no_error:
  "(\<forall>e. fst (ReadFile w h filePath) \<noteq> Err e)
   \<and> (\<forall>err. Repositories_GetContents (client w) h filePath (activeBranch w) = Inl err \<longrightarrow>
         ReadFile w h filePath =
           (Ok (''File not found `'' @ filePath @ ''` on branch `'' @ activeBranch w
                  @ ''`. Error: '' @ err), w, h @ [GetContents filePath (activeBranch w)]))
   \<and> (\<forall>fileContent err.
         Repositories_GetContents (client w) h filePath (activeBranch w) = Inr (Some fileContent)
         \<and> GetContent fileContent = Inl err \<longrightarrow>
         ReadFile w h filePath =
           (Ok (''Failed to decode file content: '' @ err), w,
            h @ [GetContents filePath (activeBranch w)]))
   \<and> (\<forall>fileContent content.
         Repositories_GetContents (client w) h filePath (activeBranch w) = Inr (Some fileContent)
         \<and> GetContent fileContent = Inr content \<longrightarrow>
         ReadFile w h filePath = (Ok content, w, h @ [GetContents filePath (activeBranch w)]))"
  by (auto simp: ReadFile_def split: sum.splits option.splits)

theorem ReadFile_no_error_witness:
  "ReadFile (demoWrapper ''dev'') [] ''LICENSE'' =
     (Ok ''File not found `LICENSE` on branch `dev`. Error: 404 Not Found'',
      demoWrapper ''dev'', [GetContents ''LICENSE'' ''dev''])"
  using ReadFile_no_error [of "demoWrapper ''dev''" "[]" "''LICENSE''"]
  by (simp add: demoWrapper_def demoClient_def)


section \<open>Creating a branch\<close>

lemma attempts_Suc:
  "attempts p sha (Suc k) = attempts p sha k @ [CreateRef (''refs/heads/'' @ attemptName p k) sha]"
  by (simp add: attempts_def)

lemma attemptName_Suc: "attemptName p (Suc k) = p @ ''_v'' @ Itoa (int k + 1)"
  by (simp add: attemptName_def add.commute)

lemma loop_conflict:
  assumes "k < 1000" and "conflict w h p sha k"
  shows "CreateBranch_loop w (h @ attempts p sha k) p sha (attemptName p k) k
       = CreateBranch_loop w (h @ attempts p sha (Suc k)) p sha (attemptName p (Suc k)) (Suc k)"
  using assms
  by (subst CreateBranch_loop.simps)
     (auto simp: conflict_def answer_def attempts_Suc attemptName_Suc split: option.splits)

lemma loop_skip:
  assumes "k \<le> 1000" and "\<forall>j<k. conflict w h p sha j"
  shows "CreateBranch_loop w (h @ attempts p sha 0) p sha (attemptName p 0) 0
       = CreateBranch_loop w (h @ attempts p sha k) p sha (attemptName p k) k"
  using assms
proof (induction k)
  case 0
  show ?case by simp
next
  case (Suc k)
  then have "CreateBranch_loop w (h @ attempts p sha 0) p sha (attemptName p 0) 0
       = CreateBranch_loop w (h @ attempts p sha k) p sha (attemptName p k) k"
    by simp
  also have "\<dots> = CreateBranch_loop w (h @ attempts p sha (Suc k)) p sha (attemptName p (Suc k)) (Suc k)"
    using Suc.prems by (intro loop_conflict) auto
  finally show ?case .
qed

lemma loop_created:
  assumes "k < 1000" and "answer w h p sha k = None"
  shows "CreateBranch_loop w (h @ attempts p sha k) p sha (attemptName p k) k
       = (Ok (created (attemptName p k)), w\<lparr>activeBranch := attemptName p k\<rparr>,
          h @ attempts p sha (Suc k))"
  using assms
  by (subst CreateBranch_loop.simps) (simp add: answer_def attempts_Suc created_def)

lemma loop_failed:
  assumes "k < 1000" and "answer w h p sha k = Some err"
    and "\<not> Contains err ''Reference already exists''"
  shows "CreateBranch_loop w (h @ attempts p sha k) p sha (attemptName p k) k
       = (Err (''failed to create branch: '' @ err), w, h @ attempts p sha (Suc k))"
  using assms
  by (subst CreateBranch_loop.simps) (simp add: answer_def attempts_Suc)

lemma loop_exhausted:
  "CreateBranch_loop w h' p sha n 1000 = (Ok (unable p), w, h')"
  by (subst CreateBranch_loop.simps) (simp add: unable_def)

lemma CreateBranch_cases:
  assumes ref: "Git_GetRef (client w) h (''refs/heads/'' @ githubBaseBranch w) = Inr sha"
    and h1: "h1 = h @ [GetRef (''refs/heads/'' @ githubBaseBranch w)]"
  shows "(k < 1000 \<and> (\<forall>j<k. conflict w h1 p sha j) \<and> answer w h1 p sha k = None \<longrightarrow>
            CreateBranch w h p =
              (Ok (created (attemptName p k)), w\<lparr>activeBranch := attemptName p k\<rparr>,
               h1 @ attempts p sha (Suc k)))
       \<and> (k < 1000 \<and> (\<forall>j<k. conflict w h1 p sha j) \<and> answer w h1 p sha k = Some err
            \<and> \<not> Contains err ''Reference already exists'' \<longrightarrow>
            CreateBranch w h p =
              (Err (''failed to create branch: '' @ err), w, h1 @ attempts p sha (Suc k)))
       \<and> ((\<forall>j<1000. conflict w h1 p sha j) \<longrightarrow>
            CreateBranch w h p = (Ok (unable p), w, h1 @ attempts p sha 1000))"
proof -
  have start: "CreateBranch w h p = CreateBranch_loop w (h1 @ attempts p sha 0) p sha (attemptName p 0) 0"
    using ref h1 by (simp add: CreateBranch_def attempts_def attemptName_def)
  show ?thesis
    using loop_skip [of k w h1 p sha] loop_skip [of 1000 w h1 p sha]
      loop_created [of k w h1 p sha] loop_failed [of k w h1 p sha err]
      loop_exhausted [of w "h1 @ attempts p sha 1000" p sha "attemptName p 1000"]
    by (simp add: start)
qed


lemma first_other_answer:
  "(\<forall>j<1000. conflict w h p sha j)
   \<or> (\<exists>k<1000. (\<forall>j<k. conflict w h p sha j) \<and> \<not> conflict w h p sha k)"
proof (cases "\<forall>j<1000. conflict w h p sha j")
  case True
  then show ?thesis by simp
next
  case False
  then obtain m where m: "m < 1000" "\<not> conflict w h p sha m" by auto
  define k where "k = (LEAST m. \<not> conflict w h p sha m)"
  have "\<not> conflict w h p sha k"
    unfolding k_def using m(2) by (rule LeastI)
  moreover have "k \<le> m"
    unfolding k_def using m(2) by (rule Least_le)
  moreover have "\<forall>j<k. conflict w h p sha j"
    unfolding k_def using not_less_Least by blast
  ultimately have "k < 1000 \<and> (\<forall>j<k. conflict w h p sha j) \<and> \<not> conflict w h p sha k"
    using m(1) by simp
  then show ?thesis by blast
qed

text \<open>
  C2. When the base branch's ref cannot be read, nothing is created. Otherwise the creation
  requests sent are the proposed name, then the suffixes \<open>_v1\<close>, \<open>_v2\<close>, ... in increasing
  order: between one and 1000 of them, each but the last answered with "Reference already
  exists". The first answer without a conflict ends the call: the branch is created, or the
  error is returned at once. After 1000 conflicts the call gives up with its message and a
  nil error.
\<close>

theorem CreateBranch_retries:
  "(\<forall>err. Git_GetRef (client w) h (''refs/heads/'' @ githubBaseBranch w) = Inl err \<longrightarrow>
      CreateBranch w h p =
        (Err (''failed to get base branch: '' @ err), w,
         h @ [GetRef (''refs/heads/'' @ githubBaseBranch w)]))
   \<and> (\<forall>sha h1. Git_GetRef (client w) h (''refs/heads/'' @ githubBaseBranch w) = Inr sha
         \<and> h1 = h @ [GetRef (''refs/heads/'' @ githubBaseBranch w)] \<longrightarrow>
       (\<exists>k. 1 \<le> k \<and> k \<le> 1000
            \<and> snd (snd (CreateBranch w h p)) = h1 @ attempts p sha k
            \<and> (\<forall>j. Suc j < k \<longrightarrow> conflict w h1 p sha j))
       \<and> (\<forall>k<1000. (\<forall>j<k. conflict w h1 p sha j) \<and> answer w h1 p sha k = None \<longrightarrow>
             CreateBranch w h p =
               (Ok (created (attemptName p k)), w\<lparr>activeBranch := attemptName p k\<rparr>,
                h1 @ attempts p sha (Suc k)))
       \<and> (\<forall>k<1000. \<forall>err. (\<forall>j<k. conflict w h1 p sha j) \<and> answer w h1 p sha k = Some err
             \<and> \<not> Contains err ''Reference already exists'' \<longrightarrow>
             CreateBranch w h p =
               (Err (''failed to create branch: '' @ err), w, h1 @ attempts p sha (Suc k)))
       \<and> ((\<forall>j<1000. conflict w h1 p sha j) \<longrightarrow>
             CreateBranch w h p = (Ok (unable p), w, h1 @ attempts p sha 1000)))"
proof (intro conjI allI impI)
  fix err
  assume "Git_GetRef (client w) h (''refs/heads/'' @ githubBaseBranch w) = Inl err"
  then show "CreateBranch w h p =
        (Err (''failed to get base branch: '' @ err), w,
         h @ [GetRef (''refs/heads/'' @ githubBaseBranch w)])"
    by (simp add: CreateBranch_def)
next
  fix sha h1
  assume a: "Git_GetRef (client w) h (''refs/heads/'' @ githubBaseBranch w) = Inr sha
         \<and> h1 = h @ [GetRef (''refs/heads/'' @ githubBaseBranch w)]"
  note cases = CreateBranch_cases [of w h sha h1 _ p]
  from first_other_answer [of w h1 p sha]
  show "\<exists>k. 1 \<le> k \<and> k \<le> 1000
            \<and> snd (snd (CreateBranch w h p)) = h1 @ attempts p sha k
            \<and> (\<forall>j. Suc j < k \<longrightarrow> conflict w h1 p sha j)"
  proof
    assume all: "\<forall>j<1000. conflict w h1 p sha j"
    with a cases have "CreateBranch w h p = (Ok (unable p), w, h1 @ attempts p sha 1000)"
      by blast
    with all show ?thesis by (intro exI [of _ 1000]) simp
  next
    assume "\<exists>k<1000. (\<forall>j<k. conflict w h1 p sha j) \<and> \<not> conflict w h1 p sha k"
    then obtain k where k: "k < 1000" "\<forall>j<k. conflict w h1 p sha j" "\<not> conflict w h1 p sha k"
      by blast
    have "snd (snd (CreateBranch w h p)) = h1 @ attempts p sha (Suc k)"
    proof (cases "answer w h1 p sha k")
      case None
      with a k cases [of k] show ?thesis by simp
    next
      case (Some err)
      with k(3) have "\<not> Contains err ''Reference already exists''"
        by (simp add: conflict_def)
      with a k Some cases [of k err] show ?thesis by simp
    qed
    with k show ?thesis by (intro exI [of _ "Suc k"]) simp
  qed
next
  fix sha h1 k
  assume "Git_GetRef (client w) h (''refs/heads/'' @ githubBaseBranch w) = Inr sha
         \<and> h1 = h @ [GetRef (''refs/heads/'' @ githubBaseBranch w)]"
    and "k < 1000" and "(\<forall>j<k. conflict w h1 p sha j) \<and> answer w h1 p sha k = None"
  then show "CreateBranch w h p =
               (Ok (created (attemptName p k)), w\<lparr>activeBranch := attemptName p k\<rparr>,
                h1 @ attempts p sha (Suc k))"
    using CreateBranch_cases [of w h sha h1 k p] by blast
next
  fix sha h1 k err
  assume "Git_GetRef (client w) h (''refs/heads/'' @ githubBaseBranch w) = Inr sha
         \<and> h1 = h @ [GetRef (''refs/heads/'' @ githubBaseBranch w)]"
    and "k < 1000" and "(\<forall>j<k. conflict w h1 p sha j) \<and> answer w h1 p sha k = Some err
             \<and> \<not> Contains err ''Reference already exists''"
  then show "CreateBranch w h p =
               (Err (''failed to create branch: '' @ err), w, h1 @ attempts p sha (Suc k))"
    using CreateBranch_cases [of w h sha h1 k p err] by blast
next
  fix sha h1
  assume "Git_GetRef (client w) h (''refs/heads/'' @ githubBaseBranch w) = Inr sha
         \<and> h1 = h @ [GetRef (''refs/heads/'' @ githubBaseBranch w)]"
    and "\<forall>j<1000. conflict w h1 p sha j"
  then show "CreateBranch w h p = (Ok (unable p), w, h1 @ attempts p sha 1000)"
    using CreateBranch_cases [of w h sha h1 0 p] by blast
qed

lemma demo_attempt: "attemptName ''feature'' (Suc 0) = ''feature_v1''"
  by code_simp

theorem CreateBranch_retries_witness:
  "CreateBranch (demoWrapper ''dev'') [] ''feature'' =
     (Ok (created ''feature_v1''), (demoWrapper ''dev'')\<lparr>activeBranch := ''feature_v1''\<rparr>,
      [GetRef ''refs/heads/main'', CreateRef ''refs/heads/feature'' ''0a1b2c'',
       CreateRef ''refs/heads/feature_v1'' ''0a1b2c''])"
proof -
  have ref: "Git_GetRef (client (demoWrapper ''dev'')) []
               (''refs/heads/'' @ githubBaseBranch (demoWrapper ''dev'')) = Inr ''0a1b2c''
             \<and> [GetRef ''refs/heads/main'']
               = [] @ [GetRef (''refs/heads/'' @ githubBaseBranch (demoWrapper ''dev''))]"
    by (simp add: demoWrapper_def demoClient_def)
  have first: "\<forall>j<Suc 0. conflict (demoWrapper ''dev'') [GetRef ''refs/heads/main'']
                  ''feature'' ''0a1b2c'' j"
    by (simp add: conflict_def answer_def attempts_def attemptName_def demoWrapper_def
        demoClient_def Contains_def)
  have second: "answer (demoWrapper ''dev'') [GetRef ''refs/heads/main'']
                  ''feature'' ''0a1b2c'' (Suc 0) = None"
    by (simp add: answer_def demo_attempt demoWrapper_def demoClient_def)
  note all = CreateBranch_retries [of "demoWrapper ''dev''" "[]" "''feature''"]
  note success = all [THEN conjunct2, THEN spec, THEN spec, THEN mp, OF ref,
      THEN conjunct2, THEN conjunct1, THEN spec, THEN mp, THEN mp]
  have "CreateBranch (demoWrapper ''dev'') [] ''feature'' =
      (Ok (created (attemptName ''feature'' (Suc 0))),
       (demoWrapper ''dev'')\<lparr>activeBranch := attemptName ''feature'' (Suc 0)\<rparr>,
       [GetRef ''refs/heads/main''] @ attempts ''feature'' ''0a1b2c'' (Suc (Suc 0)))"
    using first second by (intro success) simp_all
  then show ?thesis
    by (simp add: demo_attempt attempts_def attemptName_def [of _ 0])
qed

text \<open>
  C10. Whatever the client answers, \<^verbatim>\<open>CreateBranch\<close> either returns the success message
  for one of its attempted names, whose creation request was the last one sent and was
  answered without error, and leaves that name in the active branch; or it returns an error
  or the give-up message and leaves the wrapper as it was.
\<close>

theorem CreateBranch_active_branch:
  assumes "CreateBranch w h p = (r, w', h')"
  shows "(\<exists>k<1000. r = Ok (created (attemptName p k))
            \<and> w' = w\<lparr>activeBranch := attemptName p k\<rparr>
            \<and> (\<exists>sha h1. h' = h1 @ [CreateRef (''refs/heads/'' @ attemptName p k) sha]
                  \<and> Git_CreateRef (client w) h1 (''refs/heads/'' @ attemptName p k) sha = None))
         \<or> (w' = w \<and> ((\<exists>err. r = Err err) \<or> r = Ok (unable p)))"
proof (cases "Git_GetRef (client w) h (''refs/heads/'' @ githubBaseBranch w)")
  case (Inl err)
  with assms show ?thesis by (auto simp: CreateBranch_def)
next
  case (Inr sha)
  define h1 where "h1 = h @ [GetRef (''refs/heads/'' @ githubBaseBranch w)]"
  note cases = CreateBranch_cases [OF Inr h1_def, of _ p]
  from first_other_answer [of w h1 p sha] show ?thesis
  proof
    assume "\<forall>j<1000. conflict w h1 p sha j"
    with cases assms show ?thesis by auto
  next
    assume "\<exists>k<1000. (\<forall>j<k. conflict w h1 p sha j) \<and> \<not> conflict w h1 p sha k"
    then obtain k where k: "k < 1000" "\<forall>j<k. conflict w h1 p sha j" "\<not> conflict w h1 p sha k"
      by blast
    show ?thesis
    proof (cases "answer w h1 p sha k")
      case None
      with k cases [of k] assms
      have "r = Ok (created (attemptName p k))" "w' = w\<lparr>activeBranch := attemptName p k\<rparr>"
        "h' = (h1 @ attempts p sha k) @ [CreateRef (''refs/heads/'' @ attemptName p k) sha]"
        by (simp_all add: attempts_Suc)
      moreover from None
      have "Git_CreateRef (client w) (h1 @ attempts p sha k) (''refs/heads/'' @ attemptName p k) sha = None"
        by (simp add: answer_def)
      ultimately show ?thesis using k(1) by blast
    next
      case (Some err)
      with k(3) have "\<not> Contains err ''Reference already exists''"
        by (simp add: conflict_def)
      with k Some cases [of k err] assms show ?thesis by auto
    qed
  qed
qed


lemma demo_eval:
  "CreateBranch (demoWrapper ''dev'') [] ''feature'' =
     (Ok (created ''feature_v1''), (demoWrapper ''dev'')\<lparr>activeBranch := ''feature_v1''\<rparr>,
      [GetRef ''refs/heads/main'', CreateRef ''refs/heads/feature'' ''0a1b2c'',
       CreateRef ''refs/heads/feature_v1'' ''0a1b2c''])"
  using CreateBranch_cases [of "demoWrapper ''dev''" "[]" "''0a1b2c''" "[GetRef ''refs/heads/main'']" 1 "''feature''"]
  by (simp add: demoWrapper_def demoClient_def conflict_def answer_def attempts_def
      demo_attempt Contains_def attemptName_def [of _ 0])

theorem CreateBranch_active_branch_witness:
  "CreateBranch (demoWrapper ''dev'') [] ''feature'' =
     (Ok (created ''feature_v1''), (demoWrapper ''dev'')\<lparr>activeBranch := ''feature_v1''\<rparr>,
      [GetRef ''refs/heads/main'', CreateRef ''refs/heads/feature'' ''0a1b2c'',
       CreateRef ''refs/heads/feature_v1'' ''0a1b2c''])
   \<and> ((\<exists>k<1000. Ok (created ''feature_v1'') = Ok (created (attemptName ''feature'' k))
            \<and> (demoWrapper ''dev'')\<lparr>activeBranch := ''feature_v1''\<rparr>
                = (demoWrapper ''dev'')\<lparr>activeBranch := attemptName ''feature'' k\<rparr>
            \<and> (\<exists>sha h1. [GetRef ''refs/heads/main'', CreateRef ''refs/heads/feature'' ''0a1b2c'',
                           CreateRef ''refs/heads/feature_v1'' ''0a1b2c'']
                    = h1 @ [CreateRef (''refs/heads/'' @ attemptName ''feature'' k) sha]
                  \<and> Git_CreateRef (client (demoWrapper ''dev'')) h1
                      (''refs/heads/'' @ attemptName ''feature'' k) sha = None))
      \<or> ((demoWrapper ''dev'')\<lparr>activeBranch := ''feature_v1''\<rparr> = demoWrapper ''dev''
          \<and> ((\<exists>err. Ok (created ''feature_v1'') = Err err)
               \<or> Ok (created ''feature_v1'') = Ok (unable ''feature''))))"
  using demo_eval CreateBranch_active_branch [OF demo_eval] by (rule conjI)


section \<open>The Link header\<close>

lemma Split_nonempty: "Split s sep \<noteq> []"
  by (induction s) (auto split: list.splits)


lemma Split_append_sep: "sep \<notin> set a \<Longrightarrow> Split (a @ sep # b) sep = a # Split b sep"
  by (induction a) (auto split: list.splits)



lemma Contains_sublist: "Contains s substr \<longleftrightarrow> sublist substr s"
  by (induction s) (auto simp: Contains_def sublist_Cons_right)
























section \<open>Updating a file\<close>

lemma Join_Cons_Cons: "Join ((c # y) # ys) sep = c # Join (y # ys) sep"
  by (cases ys) simp_all

lemma Join_Split: "Join (Split s sep) [sep] = s"
proof (induction s)
  case Nil
  show ?case by simp
next
  case (Cons c cs)
  obtain y ys where s: "Split cs sep = y # ys"
    using Split_nonempty [of cs sep] by (cases "Split cs sep") auto
  with Cons show ?case by (auto simp: Join_Cons_Cons)
qed

lemma replaceEach_absent: "\<not> sublist old s \<Longrightarrow> replaceEach s old new = s"
proof (induction s)
  case Nil
  show ?case by (simp add: replaceEach.simps)
next
  case (Cons c cs)
  then have "\<not> prefix old (c # cs)" and "\<not> sublist old cs"
    by (simp_all add: sublist_Cons_right)
  with Cons.IH show ?case by (simp add: replaceEach.simps)
qed

lemma ReplaceAll_absent: "\<not> sublist old s \<Longrightarrow> ReplaceAll s old new = s"
  by (cases "old = []") (auto simp: ReplaceAll_def replaceEach_absent)

lemma replaceInFile_absent:
  assumes "ReadFile w h filePath = (Ok currentContent, w1, h1)"
    and "\<not> sublist oldContent currentContent"
  shows "replaceInFile w h filePath oldContent newContent = (Ok notUpdated, w1, h1)"
  using assms by (simp add: replaceInFile_def ReplaceAll_absent)

text \<open>
  C1, amended. On a branch other than the base branch, for a payload of a path line followed
  by a text that holds all four markers, each opening marker at least eight bytes before its
  closing marker: when the file is read and the trimmed old block does not occur in its
  content, \<^verbatim>\<open>UpdateFile\<close> returns the no-op message with a nil error, having sent the one
  read request and no write.
\<close>

theorem UpdateFile_old_not_found:
  assumes "activeBranch w \<noteq> githubBaseBranch w"
    and "CHR 0x0A \<notin> set filePath"
    and "Index content ''OLD <<<<'' = Some oldStartIdx"
    and "Index content ''>>>> OLD'' = Some oldEndIdx"
    and "Index content ''NEW <<<<'' = Some newStartIdx"
    and "Index content ''>>>> NEW'' = Some newEndIdx"
    and "slice content (oldStartIdx + 8) oldEndIdx = Some oldBlock"
    and "slice content (newStartIdx + 8) newEndIdx = Some newBlock"
    and "Repositories_GetContents (client w) h filePath (activeBranch w) = Inr (Some fileContent)"
    and "GetContent fileContent = Inr currentContent"
    and "\<not> sublist (TrimSpace oldBlock) currentContent"
  shows "UpdateFile w h (filePath @ [CHR 0x0A] @ content)
       = (Ok notUpdated, w, h @ [GetContents filePath (activeBranch w)])"
proof -
  have lines: "Split (filePath @ CHR 0x0A # content) CHR 0x0A = filePath # Split content CHR 0x0A"
    using assms(2) by (rule Split_append_sep)
  have read: "ReadFile w h filePath
      = (Ok currentContent, w, h @ [GetContents filePath (activeBranch w)])"
    using assms(9,10) by (simp add: ReadFile_def)
  have "replaceInFile w h filePath (TrimSpace oldBlock) (TrimSpace newBlock)
      = (Ok notUpdated, w, h @ [GetContents filePath (activeBranch w)])"
    using read assms(11) by (rule replaceInFile_absent)
  with assms(1,3-8) show ?thesis
    by (simp add: UpdateFile_def lines Join_Split Let_def)
qed


text \<open>
  C1, as stated, fails for an old block that does not occur in the file: on the base branch
  the result is the refusal of the protected branch, and without the markers of the new
  block it is the format message.
\<close>

theorem UpdateFile_no_op_counterexample:
  "\<not> sublist ''goodbye'' ''hello world''
   \<and> Repositories_GetContents (client (demoWrapper ''main'')) [] ''README.md'' ''main''
       = Inr (Some \<lparr>SHA = Some ''3f4e'', GetContent = Inr ''hello world''\<rparr>)
   \<and> fst (UpdateFile (demoWrapper ''main'') [] (updateQuery ''README.md'' ''goodbye'' ''hi''))
       = Ok (protectedBranch ''main'')
   \<and> protectedBranch ''main'' \<noteq> notUpdated
   \<and> Repositories_GetContents (client (demoWrapper ''dev'')) [] ''README.md'' ''dev''
       = Inr (Some \<lparr>SHA = Some ''3f4e'', GetContent = Inr ''hello world''\<rparr>)
   \<and> fst (UpdateFile (demoWrapper ''dev'') []
            (''README.md'' @ [CHR 0x0A] @ ''OLD <<<<'' @ [CHR 0x0A] @ ''goodbye''
               @ [CHR 0x0A] @ ''>>>> OLD''))
       = Ok ''Invalid update format: missing OLD <<<< ... >>>> OLD or NEW <<<< ... >>>> NEW markers''"
proof (intro conjI)
  show "\<not> sublist ''goodbye'' ''hello world''"
    by (simp add: Contains_sublist [symmetric] Contains_def)
  show "Repositories_GetContents (client (demoWrapper ''main'')) [] ''README.md'' ''main''
       = Inr (Some \<lparr>SHA = Some ''3f4e'', GetContent = Inr ''hello world''\<rparr>)"
    by (simp add: demoWrapper_def demoClient_def)
  show "fst (UpdateFile (demoWrapper ''main'') [] (updateQuery ''README.md'' ''goodbye'' ''hi''))
       = Ok (protectedBranch ''main'')"
    by (simp add: UpdateFile_def demoWrapper_def)
  show "protectedBranch ''main'' \<noteq> notUpdated"
    by (simp add: protectedBranch_def notUpdated_def)
  show "Repositories_GetContents (client (demoWrapper ''dev'')) [] ''README.md'' ''dev''
       = Inr (Some \<lparr>SHA = Some ''3f4e'', GetContent = Inr ''hello world''\<rparr>)"
    by (simp add: demoWrapper_def demoClient_def)
  show "fst (UpdateFile (demoWrapper ''dev'') []
            (''README.md'' @ [CHR 0x0A] @ ''OLD <<<<'' @ [CHR 0x0A] @ ''goodbye''
               @ [CHR 0x0A] @ ''>>>> OLD''))
       = Ok ''Invalid update format: missing OLD <<<< ... >>>> OLD or NEW <<<< ... >>>> NEW markers''"
    by (simp add: UpdateFile_def demoWrapper_def)
qed

lemma demo_old_block: "TrimSpace ([CHR 0x0A] @ ''goodbye'' @ [CHR 0x0A]) = ''goodbye''"
  by code_simp

theorem UpdateFile_old_not_found_witness:
  "UpdateFile (demoWrapper ''dev'') [] (updateQuery ''README.md'' ''goodbye'' ''hi'')
     = (Ok notUpdated, demoWrapper ''dev'', [GetContents ''README.md'' ''dev''])"
proof -
  define content where
    "content = ''OLD <<<<'' @ [CHR 0x0A] @ ''goodbye'' @ [CHR 0x0A] @ ''>>>> OLD''
       @ [CHR 0x0A] @ ''NEW <<<<'' @ [CHR 0x0A] @ ''hi'' @ [CHR 0x0A] @ ''>>>> NEW''"
  have q: "updateQuery ''README.md'' ''goodbye'' ''hi'' = ''README.md'' @ [CHR 0x0A] @ content"
    by (simp add: updateQuery_def content_def)
  have "UpdateFile (demoWrapper ''dev'') [] (''README.md'' @ [CHR 0x0A] @ content)
      = (Ok notUpdated, demoWrapper ''dev'',
         [] @ [GetContents ''README.md'' (activeBranch (demoWrapper ''dev''))])"
  proof (rule UpdateFile_old_not_found)
    show "activeBranch (demoWrapper ''dev'') \<noteq> githubBaseBranch (demoWrapper ''dev'')"
      by (simp add: demoWrapper_def)
    show "CHR 0x0A \<notin> set ''README.md''" by simp
    show "Index content ''OLD <<<<'' = Some 0" by (simp add: content_def)
    show "Index content ''>>>> OLD'' = Some 17" by (simp add: content_def)
    show "Index content ''NEW <<<<'' = Some 26" by (simp add: content_def)
    show "Index content ''>>>> NEW'' = Some 38" by (simp add: content_def)
    show "slice content (0 + 8) 17 = Some ([CHR 0x0A] @ ''goodbye'' @ [CHR 0x0A])"
      by (simp add: content_def slice_def)
    show "slice content (26 + 8) 38 = Some ([CHR 0x0A] @ ''hi'' @ [CHR 0x0A])"
      by (simp add: content_def slice_def)
    show "Repositories_GetContents (client (demoWrapper ''dev'')) [] ''README.md''
            (activeBranch (demoWrapper ''dev''))
          = Inr (Some \<lparr>SHA = Some ''3f4e'', GetContent = Inr ''hello world''\<rparr>)"
      by (simp add: demoWrapper_def demoClient_def)
    show "GetContent \<lparr>SHA = Some ''3f4e'', GetContent = Inr ''hello world''\<rparr> = Inr ''hello world''"
      by simp
    show "\<not> sublist (TrimSpace ([CHR 0x0A] @ ''goodbye'' @ [CHR 0x0A])) ''hello world''"
      by (simp only: demo_old_block) (simp add: Contains_sublist [symmetric] Contains_def)
  qed
  then show ?thesis by (simp add: q demoWrapper_def)
qed


section \<open>Loading issues\<close>



















section \<open>Construction and credentials\<close>

text \<open>
  C4, as stated, fails: with only the access token in the environment the issues loader is
  constructed, and with only the app ID and the private key the wrapper is.
\<close>

theorem construction_counterexample:
  "tokenOnly ''GITHUB_APP_ID'' = [] \<and> tokenOnly ''GITHUB_APP_PRIVATE_KEY'' = []
   \<and> NewGitHubIssuesLoader tokenOnly ''owner/repo'' [] = Inr demoLoader
   \<and> appOnly ''GITHUB_PERSONAL_ACCESS_TOKEN'' = []
   \<and> NewGitHubAPIWrapper appOnly demoClient [] (Some demoConfig)
       = (Inr (demoWrapper ''main''), [Get ''owner'' ''repo''])"
  by (simp add: tokenOnly_def appOnly_def NewGitHubIssuesLoader_def demoLoader_def
      NewGitHubAPIWrapper_def demoConfig_def demoClient_def demoWrapper_def Let_def)

lemma loader_token:
  "(repository \<noteq> [] \<and> env ''GITHUB_PERSONAL_ACCESS_TOKEN'' \<noteq> []
      \<and> issuesLoaderToken env repository opts \<noteq> [] \<longrightarrow>
      (\<exists>l. NewGitHubIssuesLoader env repository opts = Inr l
         \<and> AccessToken l = issuesLoaderToken env repository opts))
   \<and> (repository = [] \<longrightarrow> (\<exists>e. NewGitHubIssuesLoader env repository opts = Inl e))
   \<and> (env ''GITHUB_PERSONAL_ACCESS_TOKEN'' = [] \<and> issuesLoaderToken env repository opts = []
        \<longrightarrow> (\<exists>e. NewGitHubIssuesLoader env repository opts = Inl e))"
  by (simp add: NewGitHubIssuesLoader_def issuesLoaderToken_def Let_def)

lemma file_loader_token:
  "(repository \<noteq> [] \<and> env ''GITHUB_PERSONAL_ACCESS_TOKEN'' \<noteq> []
      \<and> fileLoaderToken env repository opts \<noteq> [] \<longrightarrow>
      (\<exists>l. NewGitHubFileLoader env repository opts = Inr l
         \<and> file_AccessToken l = fileLoaderToken env repository opts))
   \<and> (repository = [] \<longrightarrow> (\<exists>e. NewGitHubFileLoader env repository opts = Inl e))
   \<and> (env ''GITHUB_PERSONAL_ACCESS_TOKEN'' = [] \<and> fileLoaderToken env repository opts = []
        \<longrightarrow> (\<exists>e. NewGitHubFileLoader env repository opts = Inl e))"
  by (simp add: NewGitHubFileLoader_def fileLoaderToken_def Let_def)

lemma wrapper_missing:
  assumes "R = configured env config Repository ''GITHUB_REPOSITORY''"
    and "A = configured env config AppID ''GITHUB_APP_ID''"
    and "K = configured env config PrivateKey ''GITHUB_APP_PRIVATE_KEY''"
    and "R = [] \<or> A = [] \<or> K = [] \<or> length (Split R CHR ''/'') \<noteq> 2"
  shows "\<exists>e. NewGitHubAPIWrapper env c h config = (Inl e, h)"
proof (cases config)
  case None
  with assms show ?thesis
    by (auto simp: NewGitHubAPIWrapper_def configured_def Let_def)
next
  case (Some a)
  with assms show ?thesis
    by (cases "Repository a = []"; cases "AppID a = []"; cases "PrivateKey a = []")
       (auto simp: NewGitHubAPIWrapper_def configured_def Let_def)
qed

lemma wrapper_present:
  assumes "R = configured env config Repository ''GITHUB_REPOSITORY''"
    and "A = configured env config AppID ''GITHUB_APP_ID''"
    and "K = configured env config PrivateKey ''GITHUB_APP_PRIVATE_KEY''"
    and "R \<noteq> []" "A \<noteq> []" "K \<noteq> []" "length (Split R CHR ''/'') = 2"
  shows "(\<exists>w. fst (NewGitHubAPIWrapper env c h config) = Inr w)
     \<longleftrightarrow> (\<exists>r. Repositories_Get c h (Split R CHR ''/'' ! 0) (Split R CHR ''/'' ! 1) = Inr r)"
proof (cases config)
  case None
  with assms show ?thesis
    by (auto simp: NewGitHubAPIWrapper_def configured_def Let_def split: sum.splits)
next
  case (Some a)
  with assms show ?thesis
    by (cases "Repository a = []"; cases "AppID a = []"; cases "PrivateKey a = []")
       (auto simp: NewGitHubAPIWrapper_def configured_def Let_def split: sum.splits)
qed


text \<open>
  C4, amended. A loader is constructed, holding the token that the options leave in it,
  when the repository string is non-empty, the environment holds the access token and that
  token is non-empty; it is refused when the repository string is empty, and when neither
  the environment nor the options give a token. The wrapper, with the repository, the app
  ID and the private key taken from the configuration or else from the environment, fails
  before any request when one of the three is empty or the repository does not split at
  \<^verbatim>\<open>/\<close> into two parts; otherwise it is constructed exactly when the repository lookup
  succeeds.
\<close>

theorem construction_credentials:
  "((repository \<noteq> [] \<and> env ''GITHUB_PERSONAL_ACCESS_TOKEN'' \<noteq> []
      \<and> issuesLoaderToken env repository opts \<noteq> [] \<longrightarrow>
      (\<exists>l. NewGitHubIssuesLoader env repository opts = Inr l
         \<and> AccessToken l = issuesLoaderToken env repository opts))
    \<and> (repository = [] \<longrightarrow> (\<exists>e. NewGitHubIssuesLoader env repository opts = Inl e))
    \<and> (env ''GITHUB_PERSONAL_ACCESS_TOKEN'' = [] \<and> issuesLoaderToken env repository opts = []
        \<longrightarrow> (\<exists>e. NewGitHubIssuesLoader env repository opts = Inl e)))
   \<and> ((repository \<noteq> [] \<and> env ''GITHUB_PERSONAL_ACCESS_TOKEN'' \<noteq> []
      \<and> fileLoaderToken env repository fileOpts \<noteq> [] \<longrightarrow>
      (\<exists>l. NewGitHubFileLoader env repository fileOpts = Inr l
         \<and> file_AccessToken l = fileLoaderToken env repository fileOpts))
    \<and> (repository = [] \<longrightarrow> (\<exists>e. NewGitHubFileLoader env repository fileOpts = Inl e))
    \<and> (env ''GITHUB_PERSONAL_ACCESS_TOKEN'' = [] \<and> fileLoaderToken env repository fileOpts = []
        \<longrightarrow> (\<exists>e. NewGitHubFileLoader env repository fileOpts = Inl e)))
   \<and> (R = configured env config Repository ''GITHUB_REPOSITORY''
        \<and> A = configured env config AppID ''GITHUB_APP_ID''
        \<and> K = configured env config PrivateKey ''GITHUB_APP_PRIVATE_KEY'' \<longrightarrow>
        (R = [] \<or> A = [] \<or> K = [] \<or> length (Split R CHR ''/'') \<noteq> 2 \<longrightarrow>
           (\<exists>e. NewGitHubAPIWrapper env c h config = (Inl e, h)))
        \<and> (R \<noteq> [] \<and> A \<noteq> [] \<and> K \<noteq> [] \<and> length (Split R CHR ''/'') = 2 \<longrightarrow>
             ((\<exists>w. fst (NewGitHubAPIWrapper env c h config) = Inr w)
                \<longleftrightarrow> (\<exists>r. Repositories_Get c h (Split R CHR ''/'' ! 0)
                            (Split R CHR ''/'' ! 1) = Inr r))))"
  using loader_token [of repository env opts] file_loader_token [of repository env fileOpts]
    wrapper_missing [of R env config A K c h] wrapper_present [of R env config A K c h]
  by blast

theorem construction_credentials_witness:
  "\<not> isl (NewGitHubIssuesLoader tokenOnly ''owner/repo'' [WithAccessToken ''other''])
   \<and> \<not> isl (NewGitHubFileLoader tokenOnly ''owner/repo'' [WithBranch ''dev''])
   \<and> isl (NewGitHubIssuesLoader appOnly ''owner/repo'' [WithIncludePRs False])
   \<and> isl (fst (NewGitHubAPIWrapper tokenOnly demoClient [] (Some demoConfig)))
   \<and> snd (NewGitHubAPIWrapper tokenOnly demoClient [] (Some demoConfig)) = []
   \<and> \<not> isl (fst (NewGitHubAPIWrapper appOnly demoClient [] (Some demoConfig)))"
proof -
  note t = construction_credentials [of "''owner/repo''" tokenOnly "[WithAccessToken ''other'']"
      "[WithBranch ''dev'']" "''owner/repo''" "Some demoConfig" "[]" "[]" demoClient "[]"]
  note a = construction_credentials [of "''owner/repo''" appOnly "[WithIncludePRs False]"
      "[]" "''owner/repo''" "Some demoConfig" "''12345''" "''key''" demoClient "[]"]
  have 1: "\<not> isl (NewGitHubIssuesLoader tokenOnly ''owner/repo'' [WithAccessToken ''other''])"
    using t by (auto simp: tokenOnly_def issuesLoaderToken_def WithAccessToken_def)
  have 2: "\<not> isl (NewGitHubFileLoader tokenOnly ''owner/repo'' [WithBranch ''dev''])"
    using t by (auto simp: tokenOnly_def fileLoaderToken_def WithBranch_def)
  have 3: "isl (NewGitHubIssuesLoader appOnly ''owner/repo'' [WithIncludePRs False])"
    using a by (auto simp: appOnly_def issuesLoaderToken_def WithIncludePRs_def)
  have 4: "isl (fst (NewGitHubAPIWrapper tokenOnly demoClient [] (Some demoConfig)))
      \<and> snd (NewGitHubAPIWrapper tokenOnly demoClient [] (Some demoConfig)) = []"
    using t by (auto simp: configured_def demoConfig_def tokenOnly_def)
  have 5: "\<not> isl (fst (NewGitHubAPIWrapper appOnly demoClient [] (Some demoConfig)))"
    using a by (auto simp: configured_def demoConfig_def appOnly_def demoClient_def)
  from 1 2 3 4 5 show ?thesis by blast
qed


text \<open>
  Both loader constructors read the environment before they apply the options, so a token
  given only by an option is refused. The repository's tests of the constructors unset the
  variable and expect the loader with \<^verbatim>\<open>WithAccessToken("test-token")\<close> to be constructed;
  the theorem above says nothing of this case.
\<close>

lemma token_by_option_refused:
  "NewGitHubIssuesLoader appOnly ''owner/repo'' [WithAccessToken ''test-token'']
     = Inl ''GITHUB_PERSONAL_ACCESS_TOKEN environment variable is required''
   \<and> NewGitHubFileLoader appOnly ''owner/repo'' [WithFileAccessToken ''test-token'']
     = Inl ''GITHUB_PERSONAL_ACCESS_TOKEN environment variable is required''"
  by (simp add: NewGitHubIssuesLoader_def NewGitHubFileLoader_def appOnly_def)

end
